theory Spec2Isabelle
  imports Complex_Main
begin

section \<open>Python values\<close>

text \<open>
  The request fields \<open>matrix\<close>, \<open>standards\<close> and \<open>definitions\<close> are typed \<open>Any\<close>
  in \<open>IngestPayload\<close>: they hold whatever JSON the client sent. A JSON object is an
  association list in insertion order (what \<open>dict.items()\<close> walks), its keys are strings.
  A string is a list of characters, one \<open>char\<close> per code point: the alphabet is the
  code points U+0000 to U+00FF, and the character tables below are Python's on that
  range.
\<close>

datatype json =
    JNull
  | JBool bool
  | JInt int
  | JFloat real
  | JStr string
  | JList "json list"
  | JDict "(string \<times> json) list"

type_synonym document = "(string \<times> json) list"

text \<open>The exceptions the handlers can end with. An \<open>HTTPException\<close> carries its
  status code and detail; the two others are raised by the interpreter and reach the
  client as a bare status 500.\<close>

datatype error =
    HTTPException nat string
  | AttributeError
  | TypeError

text \<open>Truth value of an object, as \<open>if x\<close>, \<open>not x\<close> and \<open>x or y\<close> test it.\<close>

fun py_truthy :: "json \<Rightarrow> bool" where
  "py_truthy JNull = False"
| "py_truthy (JBool b) = b"
| "py_truthy (JInt i) = (i \<noteq> 0)"
| "py_truthy (JFloat r) = (r \<noteq> 0)"
| "py_truthy (JStr s) = (s \<noteq> [])"
| "py_truthy (JList xs) = (xs \<noteq> [])"
| "py_truthy (JDict kvs) = (kvs \<noteq> [])"

text \<open>\<open>x or y\<close> on two values already computed.\<close>

definition py_or :: "json \<Rightarrow> json \<Rightarrow> json" where
  "py_or x y = (if py_truthy x then x else y)"

text \<open>\<open>d.get(k)\<close> and \<open>d.get(k, default)\<close> on a dict.\<close>

definition dict_get_default :: "document \<Rightarrow> string \<Rightarrow> json \<Rightarrow> json" where
  "dict_get_default d k dflt = (case map_of d k of None \<Rightarrow> dflt | Some v \<Rightarrow> v)"

definition dict_get :: "document \<Rightarrow> string \<Rightarrow> json" where
  "dict_get d k = dict_get_default d k JNull"

text \<open>\<open>x.get(k)\<close> on any value: only a dict has the method.\<close>

fun py_get :: "json \<Rightarrow> string \<Rightarrow> error + json" where
  "py_get (JDict d) k = Inr (dict_get d k)"
| "py_get _ k = Inl AttributeError"

text \<open>Whether a value can be a dict key (lists and dicts are unhashable).\<close>

fun py_hashable :: "json \<Rightarrow> bool" where
  "py_hashable (JList xs) = False"
| "py_hashable (JDict kvs) = False"
| "py_hashable _ = True"

text \<open>Equality of two dict keys: booleans and numbers compare by numeric value
  (\<open>True == 1 == 1.0\<close>), everything else by kind and content.\<close>

fun py_num :: "json \<Rightarrow> real option" where
  "py_num (JBool b) = Some (if b then 1 else 0)"
| "py_num (JInt i) = Some (real_of_int i)"
| "py_num (JFloat r) = Some r"
| "py_num _ = None"

definition py_key_eq :: "json \<Rightarrow> json \<Rightarrow> bool" where
  "py_key_eq a b =
     (case py_num a of
        Some x \<Rightarrow> (case py_num b of Some y \<Rightarrow> x = y | None \<Rightarrow> False)
      | None \<Rightarrow> (case py_num b of Some y \<Rightarrow> False | None \<Rightarrow> a = b))"

text \<open>\<open>for x in v\<close>: a list yields its elements, a string its characters, a dict its
  keys; nothing else is iterable.\<close>

fun py_iter :: "json \<Rightarrow> error + json list" where
  "py_iter (JList xs) = Inr xs"
| "py_iter (JStr s) = Inr (map (\<lambda>c. JStr [c]) s)"
| "py_iter (JDict kvs) = Inr (map (\<lambda>kv. JStr (fst kv)) kvs)"
| "py_iter _ = Inl TypeError"

section \<open>Python strings\<close>

text \<open>White space as \<open>str.split()\<close> and \<open>str.strip()\<close> see it: the ASCII controls
  U+0009 to U+000D and U+001C to U+001F, the space, and in the upper half U+0085 (next
  line) and U+00A0 (no-break space).\<close>

definition isspace :: "char \<Rightarrow> bool" where
  "isspace c = ((of_char c :: nat) \<in> {9, 10, 11, 12, 13, 28, 29, 30, 31, 32, 133, 160})"

text \<open>The cased characters: the upper-case letters \<open>A\<close> to \<open>Z\<close>, U+00C0 to U+00D6 and
  U+00D8 to U+00DE; the lower-case letters \<open>a\<close> to \<open>z\<close>, U+00DF to U+00F6 and U+00F8 to
  U+00FF, and the three lower-case characters U+00AA, U+00B5 and U+00BA.\<close>

definition isupper_c :: "char \<Rightarrow> bool" where
  "isupper_c c =
     (65 \<le> (of_char c :: nat) \<and> (of_char c :: nat) \<le> 90
      \<or> 192 \<le> (of_char c :: nat) \<and> (of_char c :: nat) \<le> 214
      \<or> 216 \<le> (of_char c :: nat) \<and> (of_char c :: nat) \<le> 222)"

definition islower_c :: "char \<Rightarrow> bool" where
  "islower_c c =
     (97 \<le> (of_char c :: nat) \<and> (of_char c :: nat) \<le> 122
      \<or> 223 \<le> (of_char c :: nat) \<and> (of_char c :: nat) \<le> 246
      \<or> 248 \<le> (of_char c :: nat) \<and> (of_char c :: nat) \<le> 255
      \<or> (of_char c :: nat) \<in> {170, 181, 186})"

text \<open>The lower-case form of a character: every upper-case letter of the range has
  its lower-case letter 32 places above it.\<close>

definition lower_c :: "char \<Rightarrow> char" where
  "lower_c c = (if isupper_c c then char_of ((of_char c :: nat) + 32) else c)"

text \<open>The title-case form of a character, a string: a lower-case letter gives the
  upper-case letter 32 places below it and U+00DF (sharp s) gives \<open>Ss\<close>. The title-case
  forms of U+00B5 (micro sign) and U+00FF are U+039C and U+0178, which are no
  characters of this alphabet: these two are the only results that leave it, and
  \<open>title_c\<close> keeps the two characters as they are. Every other character, U+00AA and
  U+00BA among them, is its own title-case form.\<close>

definition title_c :: "char \<Rightarrow> string" where
  "title_c c =
     (if 97 \<le> (of_char c :: nat) \<and> (of_char c :: nat) \<le> 122
         \<or> 224 \<le> (of_char c :: nat) \<and> (of_char c :: nat) \<le> 246
         \<or> 248 \<le> (of_char c :: nat) \<and> (of_char c :: nat) \<le> 254
      then [char_of ((of_char c :: nat) - 32)]
      else if (of_char c :: nat) = 223 then ''Ss''
      else [c])"

text \<open>\<open>s.lower()\<close>.\<close>

definition py_lower :: "string \<Rightarrow> string" where
  "py_lower s = map lower_c s"

text \<open>\<open>s.title()\<close>: a character that follows a cased character is lowercased, any
  other is title-cased.\<close>

fun title_from :: "bool \<Rightarrow> string \<Rightarrow> string" where
  "title_from prev [] = []"
| "title_from prev (c # cs) =
     (if prev then [lower_c c] else title_c c) @ title_from (isupper_c c \<or> islower_c c) cs"

definition py_title :: "string \<Rightarrow> string" where
  "py_title s = title_from False s"

text \<open>\<open>s.replace(old, new)\<close> for one-character \<open>old\<close> and \<open>new\<close>, the only use
  the handlers make of it.\<close>

definition py_replace :: "char \<Rightarrow> char \<Rightarrow> string \<Rightarrow> string" where
  "py_replace old new s = map (\<lambda>c. if c = old then new else c) s"

text \<open>\<open>s.split()\<close>: the maximal runs of characters that are not white space, scanned
  left to right with the word read so far.\<close>

fun split_from :: "string \<Rightarrow> string \<Rightarrow> string list" where
  "split_from w [] = (if w = [] then [] else [w])"
| "split_from w (c # cs) =
     (if isspace c then (if w = [] then split_from [] cs else w # split_from [] cs)
      else split_from (w @ [c]) cs)"

definition py_split :: "string \<Rightarrow> string list" where
  "py_split s = split_from [] s"

text \<open>\<open>sep.join(ws)\<close>.\<close>

fun py_join :: "string \<Rightarrow> string list \<Rightarrow> string" where
  "py_join sep [] = []"
| "py_join sep [w] = w"
| "py_join sep (w # v # ws) = w @ sep @ py_join sep (v # ws)"

text \<open>\<open>s.strip()\<close>.\<close>

definition py_strip :: "string \<Rightarrow> string" where
  "py_strip s = rev (dropWhile isspace (rev (dropWhile isspace s)))"

text \<open>Decimal digits of a natural number, for \<open>str\<close> of an integer.\<close>

fun digits_of :: "nat \<Rightarrow> string" where
  "digits_of n =
     (if n < 10 then [char_of (48 + n)]
      else digits_of (n div 10) @ [char_of (48 + n mod 10)])"

text \<open>\<open>str(v)\<close>. The text Python prints for a float, a list or a dict is not part of
  this repository: it is the parameter \<open>repr\<close>.\<close>

fun py_str :: "(json \<Rightarrow> string) \<Rightarrow> json \<Rightarrow> string" where
  "py_str repr JNull = ''None''"
| "py_str repr (JBool b) = (if b then ''True'' else ''False'')"
| "py_str repr (JInt i) = (if i < 0 then CHR ''-'' # digits_of (nat (- i)) else digits_of (nat i))"
| "py_str repr (JStr s) = s"
| "py_str repr v = repr v"

declare digits_of.simps [simp del]

section \<open>The document store\<close>

text \<open>
  Modelled from the spec: the module \<open>database\<close> (\<open>db\<close>, \<open>create_document\<close>) is not
  among the sources. The spec's store collaborator offers insert-one-document,
  delete-many-matching-filter, find-one-matching-filter and find-many-matching-filter.
  A store is a function from collection names to the documents of the collection in
  insertion order; \<open>db is None\<close> is the value \<open>None\<close> of \<open>database option\<close>. Inserting
  appends the document as it is given, a filter matches a document whose named fields
  equal the filter's values, and a scan returns the documents in insertion order.
\<close>

type_synonym database = "string \<Rightarrow> document list"

definition create_document :: "database \<Rightarrow> string \<Rightarrow> document \<Rightarrow> database" where
  "create_document db col doc = db(col := db col @ [doc])"

definition delete_many :: "database \<Rightarrow> string \<Rightarrow> database" where
  "delete_many db col = db(col := [])"

fun doc_matches :: "(string \<times> json) list \<Rightarrow> document \<Rightarrow> bool" where
  "doc_matches [] doc = True"
| "doc_matches ((k, v) # flt) doc = (map_of doc k = Some v \<and> doc_matches flt doc)"

definition find_one :: "database \<Rightarrow> string \<Rightarrow> (string \<times> json) list \<Rightarrow> document option" where
  "find_one db col flt = List.find (doc_matches flt) (db col)"

definition find_all :: "database \<Rightarrow> string \<Rightarrow> document list" where
  "find_all db col = db col"

section \<open>Helpers of \<open>main.py\<close>\<close>

definition MATRIX_COL :: string where
  "MATRIX_COL = ''competencymatrixentry''"

definition STANDARDS_COL :: string where
  "STANDARDS_COL = ''competencystandard''"

definition DEFS_COL :: string where
  "DEFS_COL = ''competencydefinition''"

definition clear_collections :: "database \<Rightarrow> database" where
  "clear_collections db =
     delete_many (delete_many (delete_many db MATRIX_COL) STANDARDS_COL) DEFS_COL"

text \<open>\<open>_normalize_title\<close>: \<open>" ".join(title.split()).strip()\<close>.\<close>

definition normalize_title :: "string \<Rightarrow> string" where
  "normalize_title title = py_strip (py_join '' '' (py_split title))"

text \<open>The same call on a value of unknown type: only a string has \<open>split\<close>.\<close>

fun normalize_title_any :: "json \<Rightarrow> error + string" where
  "normalize_title_any (JStr s) = Inr (normalize_title s)"
| "normalize_title_any _ = Inl AttributeError"

section \<open>Ingest\<close>

record IngestPayload =
  matrix :: json
  standards :: json
  definitions :: json
  replace :: bool

text \<open>Each loop of \<open>ingest\<close> returns the exception that ended it, if any, and the
  store as the loop left it: documents written before an exception stay written.\<close>

fun isinstance_list :: "json \<Rightarrow> bool" where
  "isinstance_list (JList xs) = True"
| "isinstance_list _ = False"

fun isinstance_dict :: "json \<Rightarrow> bool" where
  "isinstance_dict (JDict kvs) = True"
| "isinstance_dict _ = False"

fun ingest_matrix_dict :: "database \<Rightarrow> (string \<times> json) list \<Rightarrow> database" where
  "ingest_matrix_dict db [] = db"
| "ingest_matrix_dict db ((title, comps) # rest) =
     ingest_matrix_dict
       (create_document db MATRIX_COL
          [(''job_title'', JStr (normalize_title title)),
           (''competencies'', if isinstance_list comps then comps else JList [])])
       rest"

fun ingest_matrix_list :: "database \<Rightarrow> json list \<Rightarrow> error option \<times> database" where
  "ingest_matrix_list db [] = (None, db)"
| "ingest_matrix_list db (entry # rest) =
     (case entry of
        JDict e \<Rightarrow>
          (case normalize_title_any
                  (py_or (dict_get e ''job_title'') (py_or (dict_get e ''title'') (JStr []))) of
             Inl err \<Rightarrow> (Some err, db)
           | Inr title \<Rightarrow>
               ingest_matrix_list
                 (if title \<noteq> [] then
                    create_document db MATRIX_COL
                      [(''job_title'', JStr title),
                       (''competencies'',
                          py_or (dict_get e ''competencies'')
                            (py_or (dict_get e ''skills'') (JList [])))]
                  else db)
                 rest)
      | _ \<Rightarrow> (Some AttributeError, db))"

definition ingest_matrix :: "database \<Rightarrow> json \<Rightarrow> error option \<times> database" where
  "ingest_matrix db m =
     (case m of
        JDict kvs \<Rightarrow> (None, ingest_matrix_dict db kvs)
      | JList xs \<Rightarrow> ingest_matrix_list db xs
      | _ \<Rightarrow> (None, db))"

text \<open>\<open>x.items()\<close>: only a dict has the method.\<close>

fun py_items :: "json \<Rightarrow> error + (string \<times> json) list" where
  "py_items (JDict kvs) = Inr kvs"
| "py_items _ = Inl AttributeError"

fun ingest_levels ::
  "(json \<Rightarrow> string) \<Rightarrow> database \<Rightarrow> string \<Rightarrow> (string \<times> json) list \<Rightarrow> database" where
  "ingest_levels repr db title [] = db"
| "ingest_levels repr db title ((lvl, mapping) # rest) =
     ingest_levels repr
       (create_document db STANDARDS_COL
          [(''job_title'', JStr (normalize_title title)),
           (''level'', JStr (py_str repr (JStr lvl))),
           (''standards'', py_or mapping (JDict []))])
       title rest"

fun ingest_standards_dict ::
  "(json \<Rightarrow> string) \<Rightarrow> database \<Rightarrow> (string \<times> json) list \<Rightarrow> error option \<times> database" where
  "ingest_standards_dict repr db [] = (None, db)"
| "ingest_standards_dict repr db ((title, lvl_obj) # rest) =
     (case py_items (py_or lvl_obj (JDict [])) of
        Inl err \<Rightarrow> (Some err, db)
      | Inr lvls \<Rightarrow> ingest_standards_dict repr (ingest_levels repr db title lvls) rest)"

fun ingest_standards_list ::
  "(json \<Rightarrow> string) \<Rightarrow> database \<Rightarrow> json list \<Rightarrow> error option \<times> database" where
  "ingest_standards_list repr db [] = (None, db)"
| "ingest_standards_list repr db (item # rest) =
     (case item of
        JDict e \<Rightarrow>
          (case normalize_title_any
                  (py_or (dict_get e ''job_title'') (py_or (dict_get e ''title'') (JStr []))) of
             Inl err \<Rightarrow> (Some err, db)
           | Inr title \<Rightarrow>
               ingest_standards_list repr
                 (create_document db STANDARDS_COL
                    [(''job_title'', JStr title),
                     (''level'', JStr (py_str repr (py_or (dict_get e ''level'') (JStr [])))),
                     (''standards'',
                        py_or (dict_get e ''standards'')
                          (py_or (dict_get e ''mapping'') (JDict [])))])
                 rest)
      | _ \<Rightarrow> (Some AttributeError, db))"

definition ingest_standards ::
  "(json \<Rightarrow> string) \<Rightarrow> database \<Rightarrow> json \<Rightarrow> error option \<times> database" where
  "ingest_standards repr db s =
     (case s of
        JDict kvs \<Rightarrow> ingest_standards_dict repr db kvs
      | JList xs \<Rightarrow> ingest_standards_list repr db xs
      | _ \<Rightarrow> (None, db))"

fun ingest_definitions_dict :: "database \<Rightarrow> (string \<times> json) list \<Rightarrow> database" where
  "ingest_definitions_dict db [] = db"
| "ingest_definitions_dict db ((key, val) # rest) =
     ingest_definitions_dict
       (create_document db DEFS_COL
          [(''key'', JStr key),
           (''label'', case val of JDict v \<Rightarrow> dict_get v ''label'' | _ \<Rightarrow> JNull),
           (''description'', case val of JDict v \<Rightarrow> dict_get v ''description'' | _ \<Rightarrow> JNull),
           (''values'', case val of JDict v \<Rightarrow> dict_get v ''values'' | _ \<Rightarrow> JDict [])])
       rest"

fun ingest_definitions_list :: "database \<Rightarrow> json list \<Rightarrow> error option \<times> database" where
  "ingest_definitions_list db [] = (None, db)"
| "ingest_definitions_list db (d # rest) =
     (case d of
        JDict e \<Rightarrow>
          (let key = py_or (dict_get e ''key'') (dict_get e ''id'') in
           if \<not> py_truthy key then ingest_definitions_list db rest
           else
             ingest_definitions_list
               (create_document db DEFS_COL
                  [(''key'', key),
                   (''label'', dict_get e ''label''),
                   (''description'', dict_get e ''description''),
                   (''values'',
                      py_or (dict_get e ''values'') (py_or (dict_get e ''levels'') (JDict [])))])
               rest)
      | _ \<Rightarrow> (Some AttributeError, db))"

definition ingest_definitions :: "database \<Rightarrow> json \<Rightarrow> error option \<times> database" where
  "ingest_definitions db ds =
     (case ds of
        JDict kvs \<Rightarrow> (None, ingest_definitions_dict db kvs)
      | JList xs \<Rightarrow> ingest_definitions_list db xs
      | _ \<Rightarrow> (None, db))"

text \<open>\<open>POST /api/ingest\<close>. The result is the response or the exception, and the store
  handle with the store as the request left it.\<close>

definition ingest ::
  "(json \<Rightarrow> string) \<Rightarrow> database option \<Rightarrow> IngestPayload \<Rightarrow> (error + json) \<times> database option" where
  "ingest repr db payload =
     (case db of
        None \<Rightarrow> (Inl (HTTPException 500 ''Database not available''), None)
      | Some d \<Rightarrow>
          (let d0 = (if replace payload then clear_collections d else d) in
           case ingest_matrix d0 (matrix payload) of
             (Some err, d1) \<Rightarrow> (Inl err, Some d1)
           | (None, d1) \<Rightarrow>
               (case ingest_standards repr d1 (standards payload) of
                  (Some err, d2) \<Rightarrow> (Inl err, Some d2)
                | (None, d2) \<Rightarrow>
                    (case ingest_definitions d2 (definitions payload) of
                       (Some err, d3) \<Rightarrow> (Inl err, Some d3)
                     | (None, d3) \<Rightarrow> (Inr (JDict [(''status'', JStr ''ok'')]), Some d3)))))"

section \<open>Query\<close>

record CompetencyItem =
  item_key :: json
  item_label :: json
  item_standard :: json
  item_definition :: json
  item_standard_definition :: json

record CompetenciesResponse =
  resp_title :: string
  resp_level :: "string option"
  resp_items :: "CompetencyItem list"

text \<open>\<open>x.get(key)\<close> where the key is a value of unknown type: the method exists on a
  dict only, the key must be hashable, and only a string equals a key of a stored
  document.\<close>

fun py_get_any :: "json \<Rightarrow> json \<Rightarrow> error + json" where
  "py_get_any (JDict d) key =
     (if py_hashable key then Inr (case key of JStr k \<Rightarrow> dict_get d k | _ \<Rightarrow> JNull)
      else Inl TypeError)"
| "py_get_any _ key = Inl AttributeError"

text \<open>The lookup table of the requested level (lines 197 to 201). \<open>str(level)\<close> on
  the query parameter, a string, is the string itself.\<close>

definition level_mapping_for :: "database \<Rightarrow> string \<Rightarrow> string option \<Rightarrow> json" where
  "level_mapping_for db title level =
     (case level of
        None \<Rightarrow> JDict []
      | Some l \<Rightarrow>
          if l = [] then JDict []
          else
            (case find_one db STANDARDS_COL [(''job_title'', JStr title), (''level'', JStr l)] of
               None \<Rightarrow> JDict []
             | Some st_doc \<Rightarrow>
                 if st_doc = [] then JDict []
                 else py_or (dict_get st_doc ''standards'') (JDict [])))"

text \<open>\<open>defs_map\<close>, a Python dict whose keys are whatever the stored \<open>key\<close> fields
  hold: a later document with an equal key overwrites an earlier one.\<close>

type_synonym defs_map = "json \<Rightarrow> document option"

definition defs_map_set :: "defs_map \<Rightarrow> json \<Rightarrow> document \<Rightarrow> defs_map" where
  "defs_map_set dm k v = (\<lambda>x. if py_key_eq x k then Some v else dm x)"

fun build_defs_map :: "defs_map \<Rightarrow> document list \<Rightarrow> error + defs_map" where
  "build_defs_map dm [] = Inr dm"
| "build_defs_map dm (d # rest) =
     (if py_hashable (dict_get d ''key'') then
        build_defs_map
          (defs_map_set dm (dict_get d ''key'')
             [(''label'', dict_get d ''label''),
              (''description'', dict_get d ''description''),
              (''values'', py_or (dict_get d ''values'') (JDict []))])
          rest
      else Inl TypeError)"

text \<open>\<open>key.replace("_", " ").title()\<close>.\<close>

definition label_of_key :: "string \<Rightarrow> string" where
  "label_of_key k = py_title (py_replace CHR ''_'' CHR '' '' k)"

text \<open>Lines 215 to 220: the key and the label of one competency reference.\<close>

fun comp_key_label :: "json \<Rightarrow> error + json \<times> json" where
  "comp_key_label (JStr s) = Inr (JStr s, JStr (label_of_key s))"
| "comp_key_label (JDict c) =
     (let key = py_or (dict_get c ''key'') (py_or (dict_get c ''id'') (dict_get c ''name''));
          lbl = py_or (dict_get c ''label'') (dict_get c ''name'')
      in if py_truthy lbl then Inr (key, lbl)
         else if py_truthy key then
           (case key of JStr k \<Rightarrow> Inr (key, JStr (label_of_key k)) | _ \<Rightarrow> Inl AttributeError)
         else Inr (key, JNull))"
| "comp_key_label _ = Inl AttributeError"

text \<open>Lines 221 to 236: the row of one reference, \<open>None\<close> where the loop continues
  without a row.\<close>

definition competency_item ::
  "(json \<Rightarrow> string) \<Rightarrow> json \<Rightarrow> defs_map \<Rightarrow> json \<Rightarrow> error + CompetencyItem option" where
  "competency_item repr level_mapping dm cref =
     (case comp_key_label cref of
        Inl err \<Rightarrow> Inl err
      | Inr (key, lbl) \<Rightarrow>
          if \<not> py_truthy key then Inr None
          else
            (case py_get_any level_mapping key of
               Inl err \<Rightarrow> Inl err
             | Inr standard_value \<Rightarrow>
                 (let defn = (case dm key of None \<Rightarrow> [] | Some d \<Rightarrow> d) in
                  case (if standard_value \<noteq> JNull then
                          py_get (py_or (dict_get defn ''values'') (JDict []))
                            (py_lower (py_str repr standard_value))
                        else Inr JNull) of
                    Inl err \<Rightarrow> Inl err
                  | Inr value_definition \<Rightarrow>
                      Inr (Some \<lparr>item_key = key, item_label = lbl,
                                 item_standard = standard_value,
                                 item_definition = dict_get defn ''description'',
                                 item_standard_definition = value_definition\<rparr>))))"

fun collect_items ::
  "(json \<Rightarrow> string) \<Rightarrow> json \<Rightarrow> defs_map \<Rightarrow> CompetencyItem list \<Rightarrow> json list
     \<Rightarrow> error + CompetencyItem list" where
  "collect_items repr level_mapping dm result_items [] = Inr result_items"
| "collect_items repr level_mapping dm result_items (cref # rest) =
     (case competency_item repr level_mapping dm cref of
        Inl err \<Rightarrow> Inl err
      | Inr None \<Rightarrow> collect_items repr level_mapping dm result_items rest
      | Inr (Some row) \<Rightarrow> collect_items repr level_mapping dm (result_items @ [row]) rest)"

text \<open>\<open>GET /api/competencies\<close>.\<close>

definition get_competencies ::
  "(json \<Rightarrow> string) \<Rightarrow> database option \<Rightarrow> string \<Rightarrow> string option
     \<Rightarrow> error + CompetenciesResponse" where
  "get_competencies repr db title0 level =
     (case db of
        None \<Rightarrow> Inl (HTTPException 500 ''Database not available'')
      | Some d \<Rightarrow>
          (let title = normalize_title title0 in
           case find_one d MATRIX_COL [(''job_title'', JStr title)] of
             None \<Rightarrow> Inl (HTTPException 404 ''Title not found'')
           | Some matrix_entry \<Rightarrow>
               if matrix_entry = [] then Inl (HTTPException 404 ''Title not found'')
               else
                 (case build_defs_map (\<lambda>x. None) (find_all d DEFS_COL) of
                    Inl err \<Rightarrow> Inl err
                  | Inr dm \<Rightarrow>
                      (case py_iter (dict_get_default matrix_entry ''competencies'' (JList [])) of
                         Inl err \<Rightarrow> Inl err
                       | Inr comps \<Rightarrow>
                           (case collect_items repr (level_mapping_for d title level) dm [] comps of
                              Inl err \<Rightarrow> Inl err
                            | Inr result_items \<Rightarrow>
                                Inr \<lparr>resp_title = title, resp_level = level,
                                     resp_items = result_items\<rparr>)))))"

text \<open>The store in which every collection is empty.\<close>

definition empty_db :: database where
  "empty_db = (\<lambda>col. [])"

text \<open>What a request left in a collection, read off the result of \<open>ingest\<close>.\<close>

definition stored :: "(error + json) \<times> database option \<Rightarrow> string \<Rightarrow> document list" where
  "stored res col = (case snd res of None \<Rightarrow> [] | Some d \<Rightarrow> d col)"

section \<open>Evaluation of the helpers\<close>

lemma normalize_title_Engineer: "normalize_title ''Engineer'' = ''Engineer''"
  by code_simp

lemma py_truthy_py_or_nonempty_str [simp]: "s \<noteq> [] \<Longrightarrow> py_or (JStr s) y = JStr s"
  by (simp add: py_or_def)

lemma dict_get_Cons [simp]:
  "dict_get ((k, v) # d) k' = (if k = k' then v else dict_get d k')"
  by (simp add: dict_get_def dict_get_default_def)

lemma dict_get_Nil [simp]: "dict_get [] k = JNull"
  by (simp add: dict_get_def dict_get_default_def)

text \<open>An ingest reads its matrix through \<open>ingest_matrix\<close> only.\<close>

lemma ingest_matrix_cong:
  assumes "\<And>d. ingest_matrix d m1 = ingest_matrix d m2"
  shows "ingest repr dbo (p\<lparr>matrix := m1\<rparr>) = ingest repr dbo (p\<lparr>matrix := m2\<rparr>)"
  by (cases dbo)
    (simp_all add: ingest_def assms cong del: prod.case_cong_weak option.case_cong_weak)

section \<open>Title normalization\<close>

text \<open>The words \<open>split\<close> returns are non-empty and free of white space; joining
  them with single spaces and splitting again gives the same words, and \<open>strip\<close> has
  nothing left to remove.\<close>

lemma isspace_space [simp]: "isspace CHR '' ''"
  by (simp add: isspace_def)

lemma split_from_append_word:
  "list_all (\<lambda>c. \<not> isspace c) v \<Longrightarrow> split_from w (v @ rest) = split_from (w @ v) rest"
  by (induction v arbitrary: w) auto

lemma split_from_words:
  "list_all (\<lambda>c. \<not> isspace c) w \<Longrightarrow>
   list_all (\<lambda>v. v \<noteq> [] \<and> list_all (\<lambda>c. \<not> isspace c) v) (split_from w s)"
  by (induction s arbitrary: w) auto

lemma split_join_words:
  "list_all (\<lambda>v. v \<noteq> [] \<and> list_all (\<lambda>c. \<not> isspace c) v) (w # ws) \<Longrightarrow>
   split_from [] (py_join '' '' (w # ws)) = w # ws"
proof (induction ws arbitrary: w)
  case Nil
  then show ?case
    using split_from_append_word [of w "[]" "[]"] by simp
next
  case (Cons v ws)
  then have "split_from [] (py_join '' '' (v # ws)) = v # ws" by simp
  moreover have "split_from [] (w @ '' '' @ py_join '' '' (v # ws))
      = w # split_from [] (py_join '' '' (v # ws))"
    using Cons.prems split_from_append_word [of w "[]" "'' '' @ py_join '' '' (v # ws)"] by simp
  ultimately show ?case by simp
qed

lemma py_strip_id:
  assumes "s = [] \<or> (\<not> isspace (hd s) \<and> \<not> isspace (last s))"
  shows "py_strip s = s"
proof (cases "s = []")
  case True
  then show ?thesis by (simp add: py_strip_def)
next
  case False
  with assms have h: "\<not> isspace (hd s)" and l: "\<not> isspace (last s)" by auto
  from False h have "dropWhile isspace s = s" by (cases s) auto
  moreover from False l have "dropWhile isspace (rev s) = rev s"
    by (cases "rev s") (auto simp: last_rev [symmetric] simp del: last_rev)
  ultimately show ?thesis by (simp add: py_strip_def)
qed

lemma join_words_ends:
  "list_all (\<lambda>v. v \<noteq> [] \<and> list_all (\<lambda>c. \<not> isspace c) v) (w # ws) \<Longrightarrow>
   py_join '' '' (w # ws) \<noteq> [] \<and> \<not> isspace (hd (py_join '' '' (w # ws)))
     \<and> \<not> isspace (last (py_join '' '' (w # ws)))"
proof (induction ws arbitrary: w)
  case Nil
  then have "w \<noteq> []" and "\<forall>c\<in>set w. \<not> isspace c" by (auto simp: list_all_iff)
  then show ?case using hd_in_set [of w] last_in_set [of w] by auto
next
  case (Cons v ws)
  then have "w \<noteq> []" and "\<forall>c\<in>set w. \<not> isspace c" by (auto simp: list_all_iff)
  moreover from Cons have "py_join '' '' (v # ws) \<noteq> []"
    and "\<not> isspace (last (py_join '' '' (v # ws)))" by auto
  ultimately show ?case using hd_in_set [of w] by auto
qed

lemma normalize_title_join:
  "normalize_title s = py_join '' '' (py_split s)"
proof (cases "py_split s")
  case Nil
  then show ?thesis by (simp add: normalize_title_def py_strip_def)
next
  case (Cons w ws)
  have "list_all (\<lambda>v. v \<noteq> [] \<and> list_all (\<lambda>c. \<not> isspace c) v) (py_split s)"
    unfolding py_split_def by (rule split_from_words) simp
  with Cons show ?thesis
    using join_words_ends [of w ws] by (simp add: normalize_title_def py_strip_id)
qed

lemma py_split_normalize_title: "py_split (normalize_title s) = py_split s"
proof (cases "py_split s")
  case Nil
  then show ?thesis by (simp add: normalize_title_join) (simp add: py_split_def)
next
  case (Cons w ws)
  have "list_all (\<lambda>v. v \<noteq> [] \<and> list_all (\<lambda>c. \<not> isspace c) v) (py_split s)"
    unfolding py_split_def by (rule split_from_words) simp
  with Cons show ?thesis
    using split_join_words [of w ws] by (simp add: normalize_title_join py_split_def)
qed

lemma normalize_title_idem: "normalize_title (normalize_title s) = normalize_title s"
  by (simp add: normalize_title_join py_split_normalize_title [unfolded normalize_title_join])

lemma split_from_collapse:
  "isspace c \<Longrightarrow> isspace c' \<Longrightarrow> split_from w (a @ c # c' # b) = split_from w (a @ c # b)"
  by (induction a arbitrary: w) auto

lemma split_from_swap:
  "isspace c \<Longrightarrow> isspace c' \<Longrightarrow> split_from w (a @ c # b) = split_from w (a @ c' # b)"
  by (induction a arbitrary: w) auto

lemma split_from_trailing:
  "isspace c \<Longrightarrow> split_from w (s @ [c]) = split_from w s"
  by (induction s arbitrary: w) auto

lemma normalize_title_collapse:
  "isspace c \<Longrightarrow> isspace c' \<Longrightarrow> normalize_title (a @ c # c' # b) = normalize_title (a @ c # b)"
  by (simp add: normalize_title_def py_split_def split_from_collapse)

lemma normalize_title_swap:
  "isspace c \<Longrightarrow> isspace c' \<Longrightarrow> normalize_title (a @ c # b) = normalize_title (a @ c' # b)"
  unfolding normalize_title_def py_split_def by (simp add: split_from_swap [of c c'])

lemma normalize_title_leading: "isspace c \<Longrightarrow> normalize_title (c # s) = normalize_title s"
  by (simp add: normalize_title_def py_split_def)

lemma normalize_title_trailing: "isspace c \<Longrightarrow> normalize_title (s @ [c]) = normalize_title s"
  by (simp add: normalize_title_def py_split_def split_from_trailing)

lemma get_competencies_normalized:
  "get_competencies repr db (normalize_title t) level = get_competencies repr db t level"
  by (cases db) (simp_all add: get_competencies_def normalize_title_idem)

section \<open>Ingest appends\<close>

text \<open>The store that holds, in every collection, the documents of \<open>old\<close> followed by
  those of \<open>new\<close>.\<close>

definition db_append :: "database \<Rightarrow> database \<Rightarrow> database" where
  "db_append old new = (\<lambda>col. old col @ new col)"

lemma db_append_empty [simp]: "db_append old empty_db = old"
  by (simp add: db_append_def empty_db_def)

lemma create_document_append:
  "create_document (db_append old db) col doc = db_append old (create_document db col doc)"
  by (auto simp: create_document_def db_append_def fun_eq_iff)

lemma ingest_matrix_dict_append:
  "ingest_matrix_dict (db_append old db) kvs = db_append old (ingest_matrix_dict db kvs)"
  by (induction db kvs rule: ingest_matrix_dict.induct) (simp_all add: create_document_append)

lemma ingest_matrix_list_append:
  "ingest_matrix_list (db_append old db) xs = apsnd (db_append old) (ingest_matrix_list db xs)"
  by (induction xs arbitrary: db)
    (auto simp: create_document_append split: json.splits sum.splits)

lemma ingest_matrix_append:
  "ingest_matrix (db_append old db) m = apsnd (db_append old) (ingest_matrix db m)"
  by (cases m) (simp_all add: ingest_matrix_def ingest_matrix_dict_append ingest_matrix_list_append)

lemma ingest_levels_append:
  "ingest_levels repr (db_append old db) title lvls
     = db_append old (ingest_levels repr db title lvls)"
  by (induction repr db title lvls rule: ingest_levels.induct)
    (simp_all add: create_document_append)

lemma ingest_standards_dict_append:
  "ingest_standards_dict repr (db_append old db) kvs
     = apsnd (db_append old) (ingest_standards_dict repr db kvs)"
  by (induction repr db kvs rule: ingest_standards_dict.induct)
    (auto simp: ingest_levels_append split: sum.splits)

lemma ingest_standards_list_append:
  "ingest_standards_list repr (db_append old db) xs
     = apsnd (db_append old) (ingest_standards_list repr db xs)"
  by (induction xs arbitrary: db)
    (auto simp: create_document_append split: json.splits sum.splits)

lemma ingest_standards_append:
  "ingest_standards repr (db_append old db) s = apsnd (db_append old) (ingest_standards repr db s)"
  by (cases s)
    (simp_all add: ingest_standards_def ingest_standards_dict_append ingest_standards_list_append)

lemma ingest_definitions_dict_append:
  "ingest_definitions_dict (db_append old db) kvs
     = db_append old (ingest_definitions_dict db kvs)"
  by (induction db kvs rule: ingest_definitions_dict.induct)
    (simp_all add: create_document_append)

lemma ingest_definitions_list_append:
  "ingest_definitions_list (db_append old db) xs
     = apsnd (db_append old) (ingest_definitions_list db xs)"
  by (induction xs arbitrary: db)
    (auto simp: create_document_append Let_def split: json.splits)

lemma ingest_definitions_append:
  "ingest_definitions (db_append old db) ds
     = apsnd (db_append old) (ingest_definitions db ds)"
  by (cases ds)
    (simp_all add: ingest_definitions_def ingest_definitions_dict_append
       ingest_definitions_list_append)

lemma ingest_append:
  "\<not> replace p \<Longrightarrow>
   ingest repr (Some (db_append old db)) p
     = apsnd (map_option (db_append old)) (ingest repr (Some db) p)"
  by (simp add: ingest_def ingest_matrix_append ingest_standards_append
        ingest_definitions_append split: prod.splits option.splits)

lemma ingest_replace_clears:
  "ingest repr (Some db) (p\<lparr>replace := True\<rparr>)
     = ingest repr (Some (clear_collections db)) (p\<lparr>replace := False\<rparr>)"
  by (simp add: ingest_def cong del: prod.case_cong_weak option.case_cong_weak)

lemma ingest_returns_store: "\<exists>d. snd (ingest repr (Some db) p) = Some d"
  by (simp add: ingest_def Let_def split: prod.splits option.splits)

lemma stored_apsnd:
  "snd r = Some d \<Longrightarrow>
   stored (apsnd (map_option (db_append old)) r) col = old col @ stored r col"
  by (cases r) (simp add: stored_def db_append_def)

lemma ingest_onto:
  "fst (ingest repr (Some old) (p\<lparr>replace := False\<rparr>))
     = fst (ingest repr (Some empty_db) (p\<lparr>replace := False\<rparr>))
   \<and> stored (ingest repr (Some old) (p\<lparr>replace := False\<rparr>)) col
     = old col @ stored (ingest repr (Some empty_db) (p\<lparr>replace := False\<rparr>)) col"
proof -
  obtain d where d: "snd (ingest repr (Some empty_db) (p\<lparr>replace := False\<rparr>)) = Some d"
    using ingest_returns_store by blast
  have "ingest repr (Some (db_append old empty_db)) (p\<lparr>replace := False\<rparr>)
      = apsnd (map_option (db_append old)) (ingest repr (Some empty_db) (p\<lparr>replace := False\<rparr>))"
    by (rule ingest_append) simp
  then have "ingest repr (Some old) (p\<lparr>replace := False\<rparr>)
      = apsnd (map_option (db_append old)) (ingest repr (Some empty_db) (p\<lparr>replace := False\<rparr>))"
    by simp
  then show ?thesis using stored_apsnd [OF d, of old col] by simp
qed

lemma clear_collections_cols:
  "clear_collections db MATRIX_COL = []"
  "clear_collections db STANDARDS_COL = []"
  "clear_collections db DEFS_COL = []"
  by (simp_all add: clear_collections_def delete_many_def MATRIX_COL_def STANDARDS_COL_def
        DEFS_COL_def)

lemma clear_collections_empty: "clear_collections empty_db = empty_db"
  by (simp add: clear_collections_def delete_many_def empty_db_def fun_eq_iff)

section \<open>The rows of a query\<close>

text \<open>The row a reference contributes, if any.\<close>

definition row_of :: "error + CompetencyItem option \<Rightarrow> CompetencyItem option" where
  "row_of res = (case res of Inl err \<Rightarrow> None | Inr r \<Rightarrow> r)"

lemma collect_items_Inr:
  "collect_items repr lm dm acc refs = Inr rows \<Longrightarrow>
   rows = acc @ List.map_filter (\<lambda>c. row_of (competency_item repr lm dm c)) refs
   \<and> list_all (\<lambda>c. isl (competency_item repr lm dm c) = False) refs"
proof (induction refs arbitrary: acc)
  case Nil
  then show ?case by (simp add: List.map_filter_simps)
next
  case (Cons c refs)
  show ?case
  proof (cases "competency_item repr lm dm c")
    case (Inl err)
    with Cons.prems show ?thesis by simp
  next
    case (Inr r)
    show ?thesis
    proof (cases r)
      case None
      with Inr Cons.prems Cons.IH [of acc] show ?thesis
        by (simp add: List.map_filter_simps row_of_def)
    next
      case (Some row)
      with Inr Cons.prems Cons.IH [of "acc @ [row]"] show ?thesis
        by (simp add: List.map_filter_simps row_of_def)
    qed
  qed
qed

lemma collect_items_total:
  "list_all (\<lambda>c. isl (competency_item repr lm dm c) = False) refs \<Longrightarrow>
   collect_items repr lm dm acc refs
     = Inr (acc @ List.map_filter (\<lambda>c. row_of (competency_item repr lm dm c)) refs)"
proof (induction refs arbitrary: acc)
  case Nil
  then show ?case by (simp add: List.map_filter_simps)
next
  case (Cons c refs)
  then obtain r where r: "competency_item repr lm dm c = Inr r"
    by (cases "competency_item repr lm dm c") auto
  with Cons show ?case
    by (cases r) (simp_all add: List.map_filter_simps row_of_def)
qed

lemma collect_items_rows:
  assumes "collect_items repr lm dm [] refs = Inr rows" and "row \<in> set rows"
  shows "\<exists>c\<in>set refs. competency_item repr lm dm c = Inr (Some row)"
proof -
  from assms(1) have "rows = List.map_filter (\<lambda>c. row_of (competency_item repr lm dm c)) refs"
    using collect_items_Inr [of repr lm dm "[]" refs rows] by simp
  with assms(2) obtain c where "c \<in> set refs" and "row_of (competency_item repr lm dm c) = Some row"
    by (auto simp: List.map_filter_def)
  then show ?thesis
    by (cases "competency_item repr lm dm c") (auto simp: row_of_def)
qed

lemma py_get_any_empty:
  "py_get_any (JDict []) key = (if py_hashable key then Inr JNull else Inl TypeError)"
  by (cases key) simp_all

lemma competency_item_Some:
  assumes "competency_item repr lm dm c = Inr (Some row)"
  shows "comp_key_label c = Inr (item_key row, item_label row)"
    and "py_truthy (item_key row)"
    and "py_get_any lm (item_key row) = Inr (item_standard row)"
    and "item_definition row
           = dict_get (case dm (item_key row) of None \<Rightarrow> [] | Some d \<Rightarrow> d) ''description''"
    and "(if item_standard row \<noteq> JNull then
            py_get (py_or (dict_get (case dm (item_key row) of None \<Rightarrow> [] | Some d \<Rightarrow> d)
                             ''values'') (JDict []))
              (py_lower (py_str repr (item_standard row)))
          else Inr JNull) = Inr (item_standard_definition row)"
  using assms
  by (auto simp: competency_item_def Let_def split: sum.splits prod.splits if_splits)

lemma competency_item_no_level:
  assumes "competency_item repr (JDict []) dm c = Inr (Some row)"
  shows "item_standard row = JNull \<and> item_standard_definition row = JNull"
proof -
  from competency_item_Some(3) [OF assms] have s: "item_standard row = JNull"
    by (cases "item_key row") (simp_all split: if_splits)
  with competency_item_Some(5) [OF assms] show ?thesis by simp
qed

lemma level_mapping_for_empty [simp]:
  "level_mapping_for d title None = JDict []"
  "level_mapping_for d title (Some []) = JDict []"
  by (simp_all add: level_mapping_for_def)

lemma get_competencies_level:
  "get_competencies repr db t level = Inr r \<Longrightarrow> resp_level r = level"
  by (cases db)
    (auto simp: get_competencies_def Let_def split: option.splits if_splits sum.splits)

lemma get_competencies_rows:
  assumes "get_competencies repr (Some d) t level = Inr r" and "row \<in> set (resp_items r)"
  shows "\<exists>c. competency_item repr (level_mapping_for d (normalize_title t) level)
                (case build_defs_map (\<lambda>x. None) (find_all d DEFS_COL) of Inr dm \<Rightarrow> dm
                 | Inl err \<Rightarrow> (\<lambda>x. None)) c
              = Inr (Some row)"
  using assms
  by (auto simp: get_competencies_def Let_def split: option.splits if_splits sum.splits
      dest!: collect_items_rows)

text \<open>The references of a list that resolve to a key, in the order of the list, each
  with the key and the label that lines 215 to 220 give it.\<close>

definition keyed_refs :: "json list \<Rightarrow> (json \<times> json) list" where
  "keyed_refs refs =
     List.map_filter
       (\<lambda>c. case comp_key_label c of
               Inl err \<Rightarrow> None
             | Inr kl \<Rightarrow> if py_truthy (fst kl) then Some kl else None)
       refs"

lemma competency_item_key_label:
  "competency_item repr lm dm c = Inr ro \<Longrightarrow>
   map_option (\<lambda>row. (item_key row, item_label row)) ro
     = (case comp_key_label c of
          Inl err \<Rightarrow> None
        | Inr kl \<Rightarrow> if py_truthy (fst kl) then Some kl else None)"
  by (auto simp: competency_item_def Let_def split: sum.splits prod.splits if_splits)

lemma rows_keyed_refs:
  "list_all (\<lambda>c. isl (competency_item repr lm dm c) = False) refs \<Longrightarrow>
   map (\<lambda>row. (item_key row, item_label row))
     (List.map_filter (\<lambda>c. row_of (competency_item repr lm dm c)) refs)
   = keyed_refs refs"
proof (induction refs)
  case Nil
  then show ?case by (simp add: keyed_refs_def List.map_filter_simps)
next
  case (Cons c refs)
  then obtain ro where ro: "competency_item repr lm dm c = Inr ro"
    by (cases "competency_item repr lm dm c") auto
  from Cons have ih: "map (\<lambda>row. (item_key row, item_label row))
     (List.map_filter (\<lambda>c. row_of (competency_item repr lm dm c)) refs) = keyed_refs refs"
    by simp
  from competency_item_key_label [OF ro] ih ro show ?case
    by (cases ro)
      (auto simp: keyed_refs_def List.map_filter_simps row_of_def split: sum.splits if_splits)
qed

lemma get_competencies_items:
  assumes "get_competencies repr (Some db) title level = Inr r"
    and "find_one db MATRIX_COL [(''job_title'', JStr (normalize_title title))] = Some entry"
    and "py_iter (dict_get_default entry ''competencies'' (JList [])) = Inr refs"
  shows "\<exists>dm. collect_items repr (level_mapping_for db (normalize_title title) level) dm [] refs
           = Inr (resp_items r)"
  using assms
  by (auto simp: get_competencies_def Let_def split: option.splits if_splits sum.splits)

lemma competency_item_no_key:
  assumes "map_of c ''key'' = None" and "map_of c ''id'' = None" and "map_of c ''name'' = None"
  shows "competency_item repr lm dm (JDict c) = Inr None"
  using assms
  by (simp add: competency_item_def dict_get_def dict_get_default_def py_or_def Let_def)

section \<open>Queries without a standard\<close>

text \<open>A competency reference of the shape the data model gives it: a bare string, or
  an object whose key (the first truthy one of \<open>key\<close>, \<open>id\<close>, \<open>name\<close>) is a string or
  is missing or empty.\<close>

fun ref_ok :: "json \<Rightarrow> bool" where
  "ref_ok (JStr s) = True"
| "ref_ok (JDict c) =
     (case py_or (dict_get c ''key'') (py_or (dict_get c ''id'') (dict_get c ''name'')) of
        JStr k \<Rightarrow> True
      | key \<Rightarrow> (if py_truthy key then False else True))"
| "ref_ok _ = False"

text \<open>No StandardRecord is looked up or found for the request: no level was supplied,
  or the pair of the normalized title and the level has no record.\<close>

definition no_standard :: "database \<Rightarrow> string \<Rightarrow> string option \<Rightarrow> bool" where
  "no_standard db title level =
     (case level of
        None \<Rightarrow> True
      | Some l \<Rightarrow>
          find_one db STANDARDS_COL
            [(''job_title'', JStr (normalize_title title)), (''level'', JStr l)] = None)"

lemma level_mapping_for_no_standard:
  "no_standard db title level \<Longrightarrow> level_mapping_for db (normalize_title title) level = JDict []"
  by (auto simp: no_standard_def level_mapping_for_def split: option.splits)

lemma find_one_nonempty:
  "find_one db col ((k, v) # flt) = Some doc \<Longrightarrow> doc \<noteq> []"
  by (auto simp: find_one_def find_Some_iff)

lemma build_defs_map_total:
  "list_all (\<lambda>d. py_hashable (dict_get d ''key'')) docs \<Longrightarrow>
   \<exists>dm'. build_defs_map dm docs = Inr dm'"
  by (induction docs arbitrary: dm) auto

lemma competency_item_ref_ok:
  "ref_ok c \<Longrightarrow> isl (competency_item repr (JDict []) dm c) = False"
proof (cases c)
  case (JStr s)
  then show ?thesis by (simp add: competency_item_def)
next
  case (JDict d)
  assume "ref_ok c"
  with JDict show ?thesis
    by (cases "py_or (dict_get d ''key'') (py_or (dict_get d ''id'') (dict_get d ''name''))")
      (auto simp: competency_item_def Let_def split: if_splits)
qed simp_all

lemma get_competencies_not_found:
  "find_one db MATRIX_COL [(''job_title'', JStr (normalize_title title))] = None \<Longrightarrow>
   get_competencies repr (Some db) title level = Inl (HTTPException 404 ''Title not found'')"
  by (simp add: get_competencies_def)

lemma py_get_any_not_http: "py_get_any lm k \<noteq> Inl (HTTPException n s)"
  by (cases lm) auto

lemma py_get_not_http: "py_get v k \<noteq> Inl (HTTPException n s)"
  by (cases v) auto

lemma comp_key_label_not_http: "comp_key_label c \<noteq> Inl (HTTPException n s)"
  by (cases c) (auto simp: Let_def split: json.splits)

lemma competency_item_not_http: "competency_item repr lm dm c \<noteq> Inl (HTTPException n s)"
  using py_get_any_not_http py_get_not_http comp_key_label_not_http
  by (auto simp: competency_item_def Let_def split: sum.splits prod.splits if_splits)

lemma get_competencies_found:
  assumes "find_one db MATRIX_COL [(''job_title'', JStr (normalize_title title))] = Some entry"
  shows "get_competencies repr (Some db) title level \<noteq> Inl (HTTPException 404 ''Title not found'')"
proof -
  from assms have ne: "entry \<noteq> []" by (rule find_one_nonempty)
  have "collect_items repr lm dm acc refs \<noteq> Inl (HTTPException 404 ''Title not found'')"
    for lm dm acc refs
  proof (induction refs arbitrary: acc)
    case Nil
    show ?case by simp
  next
    case (Cons c refs)
    have "competency_item repr lm dm c \<noteq> Inl (HTTPException n s)" for n s
      by (rule competency_item_not_http)
    with Cons show ?case
      by (auto split: sum.splits option.splits)
  qed
  moreover have "build_defs_map dm docs \<noteq> Inl (HTTPException n s)" for dm docs n s
    by (induction docs arbitrary: dm) auto
  moreover have "py_iter v \<noteq> Inl (HTTPException n s)" for v n s
    by (cases v) auto
  ultimately show ?thesis
    using assms ne
    by (auto simp: get_competencies_def Let_def split: sum.splits)
qed

lemma get_competencies_no_standard_nulls:
  assumes "no_standard db title level"
    and "get_competencies repr (Some db) title level = Inr r"
  shows "list_all (\<lambda>row. item_standard row = JNull \<and> item_standard_definition row = JNull)
           (resp_items r)"
proof -
  have "item_standard row = JNull \<and> item_standard_definition row = JNull"
    if "row \<in> set (resp_items r)" for row
    using get_competencies_rows [OF assms(2) that] competency_item_no_level
      level_mapping_for_no_standard [OF assms(1)]
    by auto
  then show ?thesis by (simp add: list_all_iff)
qed

lemma get_competencies_no_standard_total:
  assumes "find_one db MATRIX_COL [(''job_title'', JStr (normalize_title title))] = Some entry"
    and "no_standard db title level"
    and "list_all (\<lambda>d. py_hashable (dict_get d ''key'')) (find_all db DEFS_COL)"
    and "py_iter (dict_get_default entry ''competencies'' (JList [])) = Inr refs"
    and "list_all ref_ok refs"
  shows "\<exists>r. get_competencies repr (Some db) title level = Inr r"
proof -
  from assms(1) have ne: "entry \<noteq> []" by (rule find_one_nonempty)
  from build_defs_map_total [OF assms(3)] obtain dm where
    dm: "build_defs_map (\<lambda>x. None) (find_all db DEFS_COL) = Inr dm" by blast
  from assms(5) have "list_all (\<lambda>c. isl (competency_item repr (JDict []) dm c) = False) refs"
    by (simp add: list_all_iff competency_item_ref_ok)
  from collect_items_total [OF this, of "[]"] show ?thesis
    using assms(1,4) ne dm level_mapping_for_no_standard [OF assms(2)]
    by (simp add: get_competencies_def)
qed

section \<open>Queries that return\<close>

text \<open>The stored definitions can be loaded and read: every key is hashable and
  every \<open>values\<close> field is a mapping, or is missing or empty.\<close>

definition defs_ok :: "database \<Rightarrow> bool" where
  "defs_ok db =
     list_all
       (\<lambda>d. py_hashable (dict_get d ''key'')
            \<and> isinstance_dict (py_or (dict_get d ''values'') (JDict [])))
       (find_all db DEFS_COL)"

text \<open>Every definition of a \<open>defs_map\<close> has a mapping as its values.\<close>

definition values_ok :: "defs_map \<Rightarrow> bool" where
  "values_ok dm =
     (\<forall>k d. dm k = Some d \<longrightarrow> isinstance_dict (py_or (dict_get d ''values'') (JDict [])))"

lemma isinstance_dict_py_or:
  "isinstance_dict v \<Longrightarrow> isinstance_dict (py_or v (JDict []))"
  by (simp add: py_or_def)

lemma build_defs_map_values_ok:
  "values_ok dm \<Longrightarrow>
   list_all
     (\<lambda>d. py_hashable (dict_get d ''key'')
          \<and> isinstance_dict (py_or (dict_get d ''values'') (JDict []))) docs \<Longrightarrow>
   \<exists>dm'. build_defs_map dm docs = Inr dm' \<and> values_ok dm'"
proof (induction docs arbitrary: dm)
  case Nil
  then show ?case by simp
next
  case (Cons d docs)
  let ?dm = "defs_map_set dm (dict_get d ''key'')
             [(''label'', dict_get d ''label''),
              (''description'', dict_get d ''description''),
              (''values'', py_or (dict_get d ''values'') (JDict []))]"
  from Cons.prems have "values_ok ?dm"
    by (auto simp: values_ok_def defs_map_set_def isinstance_dict_py_or split: if_splits)
  from Cons.IH [OF this] Cons.prems show ?case by simp
qed

lemma competency_item_total:
  assumes "ref_ok c" and "isinstance_dict lm" and "values_ok dm"
  shows "isl (competency_item repr lm dm c) = False"
proof -
  from assms(2) obtain l where lm: "lm = JDict l" by (cases lm) auto
  have v: "isinstance_dict
             (py_or (dict_get (case dm k of None \<Rightarrow> [] | Some d \<Rightarrow> d) ''values'') (JDict []))"
    for k
    using assms(3) by (cases "dm k") (auto simp: values_ok_def py_or_def)
  have g: "py_get
             (py_or (dict_get (case dm k of None \<Rightarrow> [] | Some d \<Rightarrow> d) ''values'')
                (JDict [])) x \<noteq> Inl e" for k x e
    using v [of k]
    by (cases "py_or (dict_get (case dm k of None \<Rightarrow> [] | Some d \<Rightarrow> d) ''values'') (JDict [])")
      auto
  show ?thesis
  proof (cases c)
    case (JStr s)
    then show ?thesis
      using g [of "JStr s"]
      by (auto simp: competency_item_def lm Let_def split: sum.splits)
  next
    case (JDict d)
    with assms(1) show ?thesis
      using g
      by (cases "py_or (dict_get d ''key'') (py_or (dict_get d ''id'') (dict_get d ''name''))")
        (auto simp: competency_item_def lm Let_def split: sum.splits if_splits)
  qed (use assms(1) in simp_all)
qed

lemma get_competencies_total:
  assumes "find_one db MATRIX_COL [(''job_title'', JStr (normalize_title title))] = Some entry"
    and "defs_ok db"
    and "isinstance_dict (level_mapping_for db (normalize_title title) level)"
    and "py_iter (dict_get_default entry ''competencies'' (JList [])) = Inr refs"
    and "list_all ref_ok refs"
  shows "\<exists>r. get_competencies repr (Some db) title level = Inr r"
proof -
  from assms(1) have ne: "entry \<noteq> []" by (rule find_one_nonempty)
  have "values_ok (\<lambda>x. None)" by (simp add: values_ok_def)
  from build_defs_map_values_ok [OF this assms(2) [unfolded defs_ok_def]] obtain dm where
    dm: "build_defs_map (\<lambda>x. None) (find_all db DEFS_COL) = Inr dm" and ok: "values_ok dm"
    by blast
  from assms(5) have "list_all
      (\<lambda>c. isl (competency_item repr (level_mapping_for db (normalize_title title) level) dm c)
             = False) refs"
    by (simp add: list_all_iff competency_item_total [OF _ assms(3) ok])
  from collect_items_total [OF this, of "[]"] show ?thesis
    using assms(1,4) ne dm by (simp add: get_competencies_def Let_def)
qed

section \<open>The matrix collection\<close>















section \<open>The lookup of a standard value\<close>






section \<open>Example data\<close>

text \<open>A matrix entry for the title \<open>Dev\<close> with four references: a bare string, an
  object with a label and no key, an object with key and label, and an object with an
  \<open>id\<close> only.\<close>

definition example_refs :: "json list" where
  "example_refs =
     [JStr ''team_coaching'',
      JDict [(''label'', JStr ''Orphan'')],
      JDict [(''key'', JStr ''k2''), (''label'', JStr ''L2'')],
      JDict [(''id'', JStr ''x_y'')]]"

definition example_db :: database where
  "example_db =
     create_document empty_db MATRIX_COL
       [(''job_title'', JStr ''Dev''), (''competencies'', JList example_refs)]"

text \<open>The same store with a StandardRecord for the level \<open>Senior\<close> and two definitions:
  the standard of \<open>team_coaching\<close> is written \<open>Advanced\<close> and its definition has the
  values key \<open>advanced\<close>; the standard of \<open>k2\<close> is written \<open>basic\<close> and its definition has
  the values key \<open>Basic\<close>.\<close>

definition example_full_db :: database where
  "example_full_db =
     create_document
       (create_document
          (create_document example_db STANDARDS_COL
             [(''job_title'', JStr ''Dev''), (''level'', JStr ''Senior''),
              (''standards'',
                 JDict [(''team_coaching'', JStr ''Advanced''), (''k2'', JStr ''basic'')])])
          DEFS_COL
          [(''key'', JStr ''team_coaching''), (''label'', JNull),
           (''description'', JStr ''Helps teams''),
           (''values'', JDict [(''advanced'', JStr ''Runs mentoring programs'')])])
       DEFS_COL
       [(''key'', JStr ''k2''), (''label'', JNull),
        (''description'', JStr ''Second skill''),
        (''values'', JDict [(''Basic'', JStr ''Knows the basics'')])]"

section \<open>Properties\<close>

text \<open>
  C1. End-to-end scenario: into the empty store, ingest the matrix
  \<open>{"Dev": ["coaching"]}\<close>, the standards \<open>{"Dev": {"Senior": {"coaching": "advanced"}}}\<close>
  and the definition of \<open>coaching\<close> (label \<open>Coaching\<close>, description \<open>Helps others\<close>, value
  \<open>advanced\<close> described as \<open>Runs mentoring programs\<close>). The ingest answers
  \<open>{"status": "ok"}\<close>, and the query for title \<open>Dev\<close> and level \<open>Senior\<close> returns exactly
  one item, with key \<open>coaching\<close>, label \<open>Coaching\<close>, standard \<open>advanced\<close>, definition
  \<open>Helps others\<close> and standard definition \<open>Runs mentoring programs\<close>.
\<close>

theorem end_to_end_round_trip:
  "fst (ingest repr (Some empty_db)
         \<lparr>matrix = JDict [(''Dev'', JList [JStr ''coaching''])],
          standards =
            JDict [(''Dev'', JDict [(''Senior'', JDict [(''coaching'', JStr ''advanced'')])])],
          definitions =
            JDict [(''coaching'',
                    JDict [(''label'', JStr ''Coaching''),
                           (''description'', JStr ''Helps others''),
                           (''values'', JDict [(''advanced'', JStr ''Runs mentoring programs'')])])],
          replace = True\<rparr>)
     = Inr (JDict [(''status'', JStr ''ok'')])
   \<and> get_competencies repr
        (snd (ingest repr (Some empty_db)
           \<lparr>matrix = JDict [(''Dev'', JList [JStr ''coaching''])],
            standards =
              JDict [(''Dev'', JDict [(''Senior'', JDict [(''coaching'', JStr ''advanced'')])])],
            definitions =
              JDict [(''coaching'',
                      JDict [(''label'', JStr ''Coaching''),
                             (''description'', JStr ''Helps others''),
                             (''values'', JDict [(''advanced'', JStr ''Runs mentoring programs'')])])],
            replace = True\<rparr>))
        ''Dev'' (Some ''Senior'')
     = Inr \<lparr>resp_title = ''Dev'', resp_level = Some ''Senior'',
            resp_items =
              [\<lparr>item_key = JStr ''coaching'', item_label = JStr ''Coaching'',
                item_standard = JStr ''advanced'', item_definition = JStr ''Helps others'',
                item_standard_definition = JStr ''Runs mentoring programs''\<rparr>]\<rparr>"
  by code_simp

text \<open>
  C3. Matrix shape equivalence: on any store, the matrix step run on the mapping
  \<open>{"Engineer": ["coaching"]}\<close> and run on the sequence
  \<open>[{"job_title": "Engineer", "competencies": ["coaching"]}]\<close> raises nothing and inserts
  the same single MatrixEntry, with job title \<open>Engineer\<close> and competencies
  \<open>["coaching"]\<close>; hence two ingests that differ only in which of the two shapes the
  matrix has give the same response and the same store.
\<close>

theorem matrix_shape_equivalence:
  "ingest_matrix db (JDict [(''Engineer'', JList [JStr ''coaching''])])
     = (None, create_document db MATRIX_COL
                [(''job_title'', JStr ''Engineer''), (''competencies'', JList [JStr ''coaching''])])
   \<and> ingest_matrix db
        (JList [JDict [(''job_title'', JStr ''Engineer''),
                       (''competencies'', JList [JStr ''coaching''])]])
     = (None, create_document db MATRIX_COL
                [(''job_title'', JStr ''Engineer''), (''competencies'', JList [JStr ''coaching''])])
   \<and> ingest repr dbo (p\<lparr>matrix := JDict [(''Engineer'', JList [JStr ''coaching''])]\<rparr>)
     = ingest repr dbo
         (p\<lparr>matrix := JList [JDict [(''job_title'', JStr ''Engineer''),
                                    (''competencies'', JList [JStr ''coaching''])]]\<rparr>)"
proof -
  have a: "ingest_matrix d (JDict [(''Engineer'', JList [JStr ''coaching''])])
     = (None, create_document d MATRIX_COL
                [(''job_title'', JStr ''Engineer''), (''competencies'', JList [JStr ''coaching''])])"
    for d
    by (simp add: ingest_matrix_def normalize_title_Engineer)
  have b: "ingest_matrix d
        (JList [JDict [(''job_title'', JStr ''Engineer''),
                       (''competencies'', JList [JStr ''coaching''])]])
     = (None, create_document d MATRIX_COL
                [(''job_title'', JStr ''Engineer''), (''competencies'', JList [JStr ''coaching''])])"
    for d
    by (simp add: ingest_matrix_def normalize_title_Engineer py_or_def)
  have c: "ingest repr dbo (p\<lparr>matrix := JDict [(''Engineer'', JList [JStr ''coaching''])]\<rparr>)
     = ingest repr dbo
         (p\<lparr>matrix := JList [JDict [(''job_title'', JStr ''Engineer''),
                                    (''competencies'', JList [JStr ''coaching''])]]\<rparr>)"
    by (rule ingest_matrix_cong) (simp add: a b)
  from a b c show ?thesis by blast
qed

text \<open>
  C7. Store unavailable: when the store handle is unset, every ingest request,
  whatever its payload and its \<open>replace\<close> flag, ends with the HTTP error 500
  \<open>Database not available\<close>, and no store operation has run: the handle is still unset
  and no collection was cleared or written.
\<close>

theorem ingest_store_unavailable:
  "ingest repr None payload = (Inl (HTTPException 500 ''Database not available''), None)"
  by (simp add: ingest_def)

text \<open>
  C9. Title normalization is idempotent and insensitive to white space. Normalizing a
  normalized title changes nothing. \<open>"  Senior   Engineer "\<close> and
  \<open>"Senior Engineer"\<close> normalize to the same key, \<open>"Senior Engineer"\<close>, and so does
  the title written with a tab, a next-line character (U+0085) and no-break spaces
  (U+00A0) in place of the spaces. Doubling a white-space character inside a title,
  exchanging it for another white-space character, or putting one in front of the title
  or behind it does not change the normalized title. Two titles with the same normalized form get the same answer from
  the query on every store, and the ingest of a matrix stores the same MatrixEntry for
  both, in the mapping shape and in the sequence shape.
\<close>

theorem normalize_title_idempotent:
  "normalize_title (normalize_title s) = normalize_title s
   \<and> normalize_title ''  Senior   Engineer '' = ''Senior Engineer''
   \<and> normalize_title ''Senior Engineer'' = ''Senior Engineer''
   \<and> normalize_title
       (CHR 0xA0 # ''Senior'' @ CHR 0x85 # CHR 0x09 # ''Engineer'' @ [CHR 0xA0])
     = ''Senior Engineer''
   \<and> (isspace c \<and> isspace c' \<longrightarrow>
        normalize_title (a @ c # c' # b) = normalize_title (a @ c # b)
        \<and> normalize_title (a @ c # b) = normalize_title (a @ c' # b)
        \<and> normalize_title (c # s) = normalize_title s
        \<and> normalize_title (s @ [c]) = normalize_title s)
   \<and> (normalize_title t1 = normalize_title t2 \<longrightarrow>
        get_competencies repr dbo t1 level = get_competencies repr dbo t2 level
        \<and> ingest_matrix db (JDict [(t1, comps)]) = ingest_matrix db (JDict [(t2, comps)])
        \<and> ingest_matrix db (JList [JDict [(''job_title'', JStr t1), (''competencies'', comps)]])
          = ingest_matrix db (JList [JDict [(''job_title'', JStr t2), (''competencies'', comps)]]))"
proof -
  have idem: "normalize_title (normalize_title s) = normalize_title s"
    by (rule normalize_title_idem)
  have ex1: "normalize_title ''  Senior   Engineer '' = ''Senior Engineer''"
    by code_simp
  have ex2: "normalize_title ''Senior Engineer'' = ''Senior Engineer''"
    by code_simp
  have ex3: "normalize_title
       (CHR 0xA0 # ''Senior'' @ CHR 0x85 # CHR 0x09 # ''Engineer'' @ [CHR 0xA0])
     = ''Senior Engineer''"
    by code_simp
  have ws: "normalize_title (a @ c # c' # b) = normalize_title (a @ c # b)
        \<and> normalize_title (a @ c # b) = normalize_title (a @ c' # b)
        \<and> normalize_title (c # s) = normalize_title s
        \<and> normalize_title (s @ [c]) = normalize_title s"
    if "isspace c" and "isspace c'"
    using that normalize_title_collapse [of c c' a b] normalize_title_swap [of c c' a b]
      normalize_title_leading [of c s] normalize_title_trailing [of c s]
    by simp
  have same: "get_competencies repr dbo t1 level = get_competencies repr dbo t2 level
        \<and> ingest_matrix db (JDict [(t1, comps)]) = ingest_matrix db (JDict [(t2, comps)])
        \<and> ingest_matrix db (JList [JDict [(''job_title'', JStr t1), (''competencies'', comps)]])
          = ingest_matrix db (JList [JDict [(''job_title'', JStr t2), (''competencies'', comps)]])"
    if eq: "normalize_title t1 = normalize_title t2"
  proof -
    have "get_competencies repr dbo t1 level = get_competencies repr dbo t2 level"
      using get_competencies_normalized [of repr dbo t1 level]
        get_competencies_normalized [of repr dbo t2 level] eq by simp
    moreover have "ingest_matrix db (JDict [(t1, comps)]) = ingest_matrix db (JDict [(t2, comps)])"
      by (simp add: ingest_matrix_def eq)
    moreover have
      "ingest_matrix db (JList [JDict [(''job_title'', JStr t1), (''competencies'', comps)]])
        = ingest_matrix db (JList [JDict [(''job_title'', JStr t2), (''competencies'', comps)]])"
    proof -
      have "py_or (JStr t) (py_or JNull (JStr [])) = JStr t" for t
        by (simp add: py_or_def)
      then show ?thesis by (simp add: ingest_matrix_def eq)
    qed
    ultimately show ?thesis by simp
  qed
  from idem ex1 ex2 ex3 ws same show ?thesis by blast
qed

theorem normalize_title_idempotent_witness:
  "isspace CHR '' '' \<and> isspace CHR 0xA0
   \<and> normalize_title (''Senior'' @ CHR '' '' # CHR 0xA0 # ''Engineer'')
     = normalize_title (''Senior'' @ CHR '' '' # ''Engineer'')
   \<and> normalize_title (''Senior'' @ CHR '' '' # ''Engineer'')
     = normalize_title (''Senior'' @ CHR 0xA0 # ''Engineer'')
   \<and> normalize_title ''  Senior   Engineer '' = normalize_title ''Senior Engineer''
   \<and> get_competencies (\<lambda>v. [])
         (Some (create_document empty_db MATRIX_COL
                  [(''job_title'', JStr ''Senior Engineer''),
                   (''competencies'', JList [JStr ''coaching''])]))
         ''  Senior   Engineer '' None
     = get_competencies (\<lambda>v. [])
         (Some (create_document empty_db MATRIX_COL
                  [(''job_title'', JStr ''Senior Engineer''),
                   (''competencies'', JList [JStr ''coaching''])]))
         ''Senior Engineer'' None
   \<and> get_competencies (\<lambda>v. [])
         (Some (create_document empty_db MATRIX_COL
                  [(''job_title'', JStr ''Senior Engineer''),
                   (''competencies'', JList [JStr ''coaching''])]))
         ''Senior Engineer'' None
     = Inr \<lparr>resp_title = ''Senior Engineer'', resp_level = None,
            resp_items =
              [\<lparr>item_key = JStr ''coaching'', item_label = JStr ''Coaching'',
                item_standard = JNull, item_definition = JNull,
                item_standard_definition = JNull\<rparr>]\<rparr>"
proof -
  have sp: "isspace CHR '' ''" and tb: "isspace CHR 0xA0"
    by (simp_all add: isspace_def)
  note inst = normalize_title_idempotent
    [where s = "[]" and c = "CHR '' ''" and c' = "CHR 0xA0" and a = "''Senior''"
       and b = "''Engineer''" and ?t1.0 = "''  Senior   Engineer ''"
       and ?t2.0 = "''Senior Engineer''" and repr = "\<lambda>v. []"
       and dbo = "Some (create_document empty_db MATRIX_COL
                  [(''job_title'', JStr ''Senior Engineer''),
                   (''competencies'', JList [JStr ''coaching''])])"
       and level = None and db = empty_db and comps = JNull]
  have c: "normalize_title ''  Senior   Engineer '' = normalize_title ''Senior Engineer''"
    using inst by presburger
  have e: "get_competencies (\<lambda>v. [])
         (Some (create_document empty_db MATRIX_COL
                  [(''job_title'', JStr ''Senior Engineer''),
                   (''competencies'', JList [JStr ''coaching''])]))
         ''Senior Engineer'' None
     = Inr \<lparr>resp_title = ''Senior Engineer'', resp_level = None,
            resp_items =
              [\<lparr>item_key = JStr ''coaching'', item_label = JStr ''Coaching'',
                item_standard = JNull, item_definition = JNull,
                item_standard_definition = JNull\<rparr>]\<rparr>"
    by code_simp
  from sp tb c e inst show ?thesis by blast
qed

text \<open>
  C2. Full-replace semantics, for every prior store and every payload. Call the batch
  of a payload what its ingest leaves in the empty store. With \<open>replace = true\<close> the
  ingest gives the response (or the exception) of the batch and leaves in each of the
  three collections exactly the records of the batch: nothing of the prior store is
  left in them. With \<open>replace = false\<close> it gives the same response and leaves in every
  collection the prior records followed by the records of the batch. On the empty store
  the flag makes no difference.
\<close>

theorem ingest_full_replace:
  "fst (ingest repr (Some db) (p\<lparr>replace := True\<rparr>))
     = fst (ingest repr (Some empty_db) (p\<lparr>replace := False\<rparr>))
   \<and> stored (ingest repr (Some db) (p\<lparr>replace := True\<rparr>)) MATRIX_COL
     = stored (ingest repr (Some empty_db) (p\<lparr>replace := False\<rparr>)) MATRIX_COL
   \<and> stored (ingest repr (Some db) (p\<lparr>replace := True\<rparr>)) STANDARDS_COL
     = stored (ingest repr (Some empty_db) (p\<lparr>replace := False\<rparr>)) STANDARDS_COL
   \<and> stored (ingest repr (Some db) (p\<lparr>replace := True\<rparr>)) DEFS_COL
     = stored (ingest repr (Some empty_db) (p\<lparr>replace := False\<rparr>)) DEFS_COL
   \<and> fst (ingest repr (Some db) (p\<lparr>replace := False\<rparr>))
     = fst (ingest repr (Some empty_db) (p\<lparr>replace := False\<rparr>))
   \<and> stored (ingest repr (Some db) (p\<lparr>replace := False\<rparr>)) col
     = db col @ stored (ingest repr (Some empty_db) (p\<lparr>replace := False\<rparr>)) col
   \<and> ingest repr (Some empty_db) (p\<lparr>replace := True\<rparr>)
     = ingest repr (Some empty_db) (p\<lparr>replace := False\<rparr>)"
proof -
  note onto = ingest_onto [of repr "clear_collections db" p]
  have r: "fst (ingest repr (Some db) (p\<lparr>replace := True\<rparr>))
     = fst (ingest repr (Some empty_db) (p\<lparr>replace := False\<rparr>))"
    using onto [of MATRIX_COL] by (simp add: ingest_replace_clears)
  have m: "stored (ingest repr (Some db) (p\<lparr>replace := True\<rparr>)) MATRIX_COL
     = stored (ingest repr (Some empty_db) (p\<lparr>replace := False\<rparr>)) MATRIX_COL"
    using onto [of MATRIX_COL] by (simp add: ingest_replace_clears clear_collections_cols)
  have s: "stored (ingest repr (Some db) (p\<lparr>replace := True\<rparr>)) STANDARDS_COL
     = stored (ingest repr (Some empty_db) (p\<lparr>replace := False\<rparr>)) STANDARDS_COL"
    using onto [of STANDARDS_COL] by (simp add: ingest_replace_clears clear_collections_cols)
  have d: "stored (ingest repr (Some db) (p\<lparr>replace := True\<rparr>)) DEFS_COL
     = stored (ingest repr (Some empty_db) (p\<lparr>replace := False\<rparr>)) DEFS_COL"
    using onto [of DEFS_COL] by (simp add: ingest_replace_clears clear_collections_cols)
  have e: "ingest repr (Some empty_db) (p\<lparr>replace := True\<rparr>)
     = ingest repr (Some empty_db) (p\<lparr>replace := False\<rparr>)"
    by (simp add: ingest_replace_clears clear_collections_empty)
  from r m s d e ingest_onto [of repr db p col] show ?thesis by blast
qed

text \<open>
  C10. Empty level: a query whose level parameter is the empty string skips the
  StandardRecord lookup. On every store and for every title it ends as the query
  without a level ends, with the same exception or with the same title and items, except
  that the response echoes the level as the empty string and not as null; when it
  returns a response, every item has a null standard and a null standard definition.
\<close>

theorem empty_level_is_no_level:
  "get_competencies repr db t (Some [])
     = map_sum id (\<lambda>r. r\<lparr>resp_level := Some []\<rparr>) (get_competencies repr db t None)
   \<and> (\<forall>r. get_competencies repr db t (Some []) = Inr r \<longrightarrow>
         resp_level r = Some []
         \<and> list_all (\<lambda>row. item_standard row = JNull \<and> item_standard_definition row = JNull)
             (resp_items r))"
proof -
  have a: "get_competencies repr db t (Some [])
     = map_sum id (\<lambda>r. r\<lparr>resp_level := Some []\<rparr>) (get_competencies repr db t None)"
    by (cases db)
      (auto simp: get_competencies_def Let_def split: option.splits if_splits sum.splits)
  have b: "resp_level r = Some []
         \<and> list_all (\<lambda>row. item_standard row = JNull \<and> item_standard_definition row = JNull)
             (resp_items r)"
    if r: "get_competencies repr db t (Some []) = Inr r" for r
  proof -
    from r obtain d where d: "db = Some d"
      by (cases db) (auto simp: get_competencies_def)
    have "item_standard row = JNull \<and> item_standard_definition row = JNull"
      if "row \<in> set (resp_items r)" for row
      using get_competencies_rows [OF r [unfolded d] that] competency_item_no_level
      by auto
    then show ?thesis using get_competencies_level [OF r] by (simp add: list_all_iff)
  qed
  from a b show ?thesis by blast
qed

theorem empty_level_is_no_level_witness:
  "get_competencies (\<lambda>v. [])
     (Some (create_document
              (create_document empty_db MATRIX_COL
                 [(''job_title'', JStr ''Dev''), (''competencies'', JList [JStr ''coaching''])])
              STANDARDS_COL
              [(''job_title'', JStr ''Dev''), (''level'', JStr ''Senior''),
               (''standards'', JDict [(''coaching'', JStr ''advanced'')])]))
     ''Dev'' (Some [])
   = Inr \<lparr>resp_title = ''Dev'', resp_level = Some [],
          resp_items =
            [\<lparr>item_key = JStr ''coaching'', item_label = JStr ''Coaching'',
              item_standard = JNull, item_definition = JNull,
              item_standard_definition = JNull\<rparr>]\<rparr>
   \<and> list_all (\<lambda>row. item_standard row = JNull \<and> item_standard_definition row = JNull)
       (resp_items
          \<lparr>resp_title = ''Dev'', resp_level = Some [],
           resp_items =
             [\<lparr>item_key = JStr ''coaching'', item_label = JStr ''Coaching'',
               item_standard = JNull, item_definition = JNull,
               item_standard_definition = JNull\<rparr>]\<rparr>)"
proof -
  have e: "get_competencies (\<lambda>v. [])
     (Some (create_document
              (create_document empty_db MATRIX_COL
                 [(''job_title'', JStr ''Dev''), (''competencies'', JList [JStr ''coaching''])])
              STANDARDS_COL
              [(''job_title'', JStr ''Dev''), (''level'', JStr ''Senior''),
               (''standards'', JDict [(''coaching'', JStr ''advanced'')])]))
     ''Dev'' (Some [])
   = Inr \<lparr>resp_title = ''Dev'', resp_level = Some [],
          resp_items =
            [\<lparr>item_key = JStr ''coaching'', item_label = JStr ''Coaching'',
              item_standard = JNull, item_definition = JNull,
              item_standard_definition = JNull\<rparr>]\<rparr>"
    by code_simp
  from empty_level_is_no_level have
    "\<forall>r. get_competencies (\<lambda>v. [])
     (Some (create_document
              (create_document empty_db MATRIX_COL
                 [(''job_title'', JStr ''Dev''), (''competencies'', JList [JStr ''coaching''])])
              STANDARDS_COL
              [(''job_title'', JStr ''Dev''), (''level'', JStr ''Senior''),
               (''standards'', JDict [(''coaching'', JStr ''advanced'')])]))
     ''Dev'' (Some []) = Inr r \<longrightarrow>
         resp_level r = Some []
         \<and> list_all (\<lambda>row. item_standard row = JNull \<and> item_standard_definition row = JNull)
             (resp_items r)"
    by (rule conjunct2)
  with e show ?thesis by blast
qed

text \<open>
  C8. Item order and silent drop. Whenever the query returns a response, its items are,
  in the order of the MatrixEntry's competencies list, exactly the references that
  resolve to a key, one row for each, carrying the key and the label the reference
  resolves to. The query does return such a response when the entry's competencies are
  a sequence of references each of which is a string or an object whose key is a
  string, missing or empty, every stored definition has a hashable key and a mapping
  (or nothing) as its values, and the level table of the request is a mapping. A
  reference that is an object with none of \<open>key\<close>, \<open>id\<close> and \<open>name\<close> yields no row and
  no exception, whatever the level table and the definitions are: the loop goes on with
  the next reference. A reference that is a bare string has the string as its key and
  as its label the string with underscores replaced by spaces and then title-cased;
  \<open>team_coaching\<close> gets the label \<open>Team Coaching\<close>. As stated for every MatrixEntry the
  claim fails: with the competencies \<open>["ok", {"key": 5}]\<close>, which ingest stores as they
  are, the second reference makes the query end with an \<open>AttributeError\<close>, and no row
  is returned for the first.
\<close>

theorem items_follow_references:
  "(get_competencies repr (Some db) title level = Inr r
      \<and> find_one db MATRIX_COL [(''job_title'', JStr (normalize_title title))] = Some entry
      \<and> py_iter (dict_get_default entry ''competencies'' (JList [])) = Inr refs
    \<longrightarrow> map (\<lambda>row. (item_key row, item_label row)) (resp_items r) = keyed_refs refs)
   \<and> (find_one db MATRIX_COL [(''job_title'', JStr (normalize_title title))] = Some entry
      \<and> py_iter (dict_get_default entry ''competencies'' (JList [])) = Inr refs
      \<and> list_all ref_ok refs
      \<and> defs_ok db
      \<and> isinstance_dict (level_mapping_for db (normalize_title title) level)
    \<longrightarrow> (\<exists>r'. get_competencies repr (Some db) title level = Inr r'
          \<and> map (\<lambda>row. (item_key row, item_label row)) (resp_items r') = keyed_refs refs))
   \<and> (map_of c ''key'' = None \<and> map_of c ''id'' = None \<and> map_of c ''name'' = None
    \<longrightarrow> competency_item repr lm dm (JDict c) = Inr None
        \<and> collect_items repr lm dm result_items (JDict c # rest)
          = collect_items repr lm dm result_items rest)
   \<and> comp_key_label (JStr s) = Inr (JStr s, JStr (py_title (py_replace CHR ''_'' CHR '' '' s)))
   \<and> py_title (py_replace CHR ''_'' CHR '' '' ''team_coaching'') = ''Team Coaching''"
proof -
  have a: "map (\<lambda>row. (item_key row, item_label row)) (resp_items r) = keyed_refs refs"
    if g: "get_competencies repr (Some db) title level = Inr r"
      and f: "find_one db MATRIX_COL [(''job_title'', JStr (normalize_title title))] = Some entry"
      and i: "py_iter (dict_get_default entry ''competencies'' (JList [])) = Inr refs"
    for r
  proof -
    from get_competencies_items [OF g f i] obtain dm' where
      c: "collect_items repr (level_mapping_for db (normalize_title title) level) dm' [] refs
           = Inr (resp_items r)"
      by blast
    from collect_items_Inr [OF c] rows_keyed_refs show ?thesis by simp
  qed
  have t: "\<exists>r'. get_competencies repr (Some db) title level = Inr r'
          \<and> map (\<lambda>row. (item_key row, item_label row)) (resp_items r') = keyed_refs refs"
    if f: "find_one db MATRIX_COL [(''job_title'', JStr (normalize_title title))] = Some entry"
      and i: "py_iter (dict_get_default entry ''competencies'' (JList [])) = Inr refs"
      and k: "list_all ref_ok refs"
      and d: "defs_ok db"
      and l: "isinstance_dict (level_mapping_for db (normalize_title title) level)"
  proof -
    from get_competencies_total [OF f d l i k, of repr] obtain r' where
      r': "get_competencies repr (Some db) title level = Inr r'" by blast
    with a [OF r' f i] show ?thesis by blast
  qed
  have b: "competency_item repr lm dm (JDict c) = Inr None
        \<and> collect_items repr lm dm result_items (JDict c # rest)
          = collect_items repr lm dm result_items rest"
    if "map_of c ''key'' = None" and "map_of c ''id'' = None" and "map_of c ''name'' = None"
    using competency_item_no_key [OF that] by simp
  have c: "comp_key_label (JStr s) = Inr (JStr s, JStr (py_title (py_replace CHR ''_'' CHR '' '' s)))"
    by (simp add: label_of_key_def)
  have d: "py_title (py_replace CHR ''_'' CHR '' '' ''team_coaching'') = ''Team Coaching''"
    by code_simp
  from a t b c d show ?thesis by blast
qed

theorem items_follow_references_witness:
  "(\<exists>r. get_competencies (\<lambda>v. []) (Some example_full_db) ''Dev'' (Some ''Senior'') = Inr r
       \<and> map (\<lambda>row. (item_key row, item_label row)) (resp_items r) = keyed_refs example_refs)
   \<and> keyed_refs example_refs
     = [(JStr ''team_coaching'', JStr ''Team Coaching''), (JStr ''k2'', JStr ''L2''),
        (JStr ''x_y'', JStr ''X Y'')]
   \<and> get_competencies (\<lambda>v. []) (Some example_full_db) ''Dev'' (Some ''Senior'')
     = Inr \<lparr>resp_title = ''Dev'', resp_level = Some ''Senior'',
            resp_items =
              [\<lparr>item_key = JStr ''team_coaching'', item_label = JStr ''Team Coaching'',
                item_standard = JStr ''Advanced'', item_definition = JStr ''Helps teams'',
                item_standard_definition = JStr ''Runs mentoring programs''\<rparr>,
               \<lparr>item_key = JStr ''k2'', item_label = JStr ''L2'',
                item_standard = JStr ''basic'', item_definition = JStr ''Second skill'',
                item_standard_definition = JNull\<rparr>,
               \<lparr>item_key = JStr ''x_y'', item_label = JStr ''X Y'',
                item_standard = JNull, item_definition = JNull,
                item_standard_definition = JNull\<rparr>]\<rparr>
   \<and> competency_item (\<lambda>v. []) (JDict []) (\<lambda>x. None) (JDict [(''label'', JStr ''Orphan'')])
     = Inr None"
proof -
  have g: "get_competencies (\<lambda>v. []) (Some example_full_db) ''Dev'' (Some ''Senior'')
     = Inr \<lparr>resp_title = ''Dev'', resp_level = Some ''Senior'',
            resp_items =
              [\<lparr>item_key = JStr ''team_coaching'', item_label = JStr ''Team Coaching'',
                item_standard = JStr ''Advanced'', item_definition = JStr ''Helps teams'',
                item_standard_definition = JStr ''Runs mentoring programs''\<rparr>,
               \<lparr>item_key = JStr ''k2'', item_label = JStr ''L2'',
                item_standard = JStr ''basic'', item_definition = JStr ''Second skill'',
                item_standard_definition = JNull\<rparr>,
               \<lparr>item_key = JStr ''x_y'', item_label = JStr ''X Y'',
                item_standard = JNull, item_definition = JNull,
                item_standard_definition = JNull\<rparr>]\<rparr>"
    by code_simp
  have kr: "keyed_refs example_refs
     = [(JStr ''team_coaching'', JStr ''Team Coaching''), (JStr ''k2'', JStr ''L2''),
        (JStr ''x_y'', JStr ''X Y'')]"
    by code_simp
  have f: "find_one example_full_db MATRIX_COL [(''job_title'', JStr (normalize_title ''Dev''))]
     = Some [(''job_title'', JStr ''Dev''), (''competencies'', JList example_refs)]"
    by code_simp
  have i: "py_iter (dict_get_default
                      [(''job_title'', JStr ''Dev''), (''competencies'', JList example_refs)]
                      ''competencies'' (JList []))
     = Inr example_refs"
    by (simp add: dict_get_default_def)
  have k: "list_all ref_ok example_refs"
    by code_simp
  have d: "defs_ok example_full_db"
    by code_simp
  have l: "isinstance_dict (level_mapping_for example_full_db (normalize_title ''Dev'')
             (Some ''Senior''))"
    by code_simp
  have n: "map_of [(''label'', JStr ''Orphan'')] ''key'' = None
     \<and> map_of [(''label'', JStr ''Orphan'')] ''id'' = None
     \<and> map_of [(''label'', JStr ''Orphan'')] ''name'' = None"
    by simp
  note inst = items_follow_references
    [where repr = "\<lambda>v. []" and db = example_full_db and title = "''Dev''"
       and level = "Some ''Senior''"
       and entry = "[(''job_title'', JStr ''Dev''), (''competencies'', JList example_refs)]"
       and refs = example_refs and c = "[(''label'', JStr ''Orphan'')]" and lm = "JDict []"
       and dm = "\<lambda>x. None"]
  from inst f i k d l have
    one: "\<exists>r. get_competencies (\<lambda>v. []) (Some example_full_db) ''Dev'' (Some ''Senior'') = Inr r
       \<and> map (\<lambda>row. (item_key row, item_label row)) (resp_items r) = keyed_refs example_refs"
    by blast
  from inst n have
    two: "competency_item (\<lambda>v. []) (JDict []) (\<lambda>x. None) (JDict [(''label'', JStr ''Orphan'')])
     = Inr None"
    by blast
  from one two g kr show ?thesis by blast
qed

theorem items_follow_references_counterexample:
  "fst (ingest (\<lambda>v. []) (Some empty_db)
          \<lparr>matrix = JDict [(''Dev'', JList [JStr ''ok'', JDict [(''key'', JInt 5)]])],
           standards = JDict [], definitions = JDict [], replace = True\<rparr>)
     = Inr (JDict [(''status'', JStr ''ok'')])
   \<and> comp_key_label (JStr ''ok'') = Inr (JStr ''ok'', JStr ''Ok'')
   \<and> get_competencies (\<lambda>v. [])
       (snd (ingest (\<lambda>v. []) (Some empty_db)
          \<lparr>matrix = JDict [(''Dev'', JList [JStr ''ok'', JDict [(''key'', JInt 5)]])],
           standards = JDict [], definitions = JDict [], replace = True\<rparr>))
       ''Dev'' None
     = Inl AttributeError"
  by code_simp

text \<open>
  C5. Query errors and null fields. On every store, a query whose normalized title has
  no MatrixEntry ends with the HTTP error 404 \<open>Title not found\<close>. A query for a title
  that has a MatrixEntry, with no level supplied or with a level for which the title has
  no StandardRecord, never ends with that error, and every item of a response it
  returns has a null standard and a null standard definition. It does return a response
  when the key of every stored definition is hashable and the entry's competencies are
  a sequence of references each of which is a string or an object whose key is a
  string, missing or empty. As stated for every store state the claim fails: a
  MatrixEntry that holds a number among its references, which ingest stores as it
  is, makes the query end with an \<open>AttributeError\<close>.
\<close>

theorem query_not_found_or_null_standards:
  "(find_one db MATRIX_COL [(''job_title'', JStr (normalize_title title))] = None \<longrightarrow>
      get_competencies repr (Some db) title level
        = Inl (HTTPException 404 ''Title not found''))
   \<and> (find_one db MATRIX_COL [(''job_title'', JStr (normalize_title title))] = Some entry
        \<and> no_standard db title level \<longrightarrow>
      get_competencies repr (Some db) title level \<noteq> Inl (HTTPException 404 ''Title not found'')
      \<and> (\<forall>r. get_competencies repr (Some db) title level = Inr r \<longrightarrow>
             list_all (\<lambda>row. item_standard row = JNull \<and> item_standard_definition row = JNull)
               (resp_items r))
      \<and> (list_all (\<lambda>d. py_hashable (dict_get d ''key'')) (find_all db DEFS_COL)
           \<and> py_iter (dict_get_default entry ''competencies'' (JList [])) = Inr refs
           \<and> list_all ref_ok refs \<longrightarrow>
          (\<exists>r. get_competencies repr (Some db) title level = Inr r
             \<and> list_all (\<lambda>row. item_standard row = JNull \<and> item_standard_definition row = JNull)
                 (resp_items r))))"
proof -
  have a: "get_competencies repr (Some db) title level
        = Inl (HTTPException 404 ''Title not found'')"
    if "find_one db MATRIX_COL [(''job_title'', JStr (normalize_title title))] = None"
    using that by (rule get_competencies_not_found)
  have b: "get_competencies repr (Some db) title level \<noteq> Inl (HTTPException 404 ''Title not found'')"
    if "find_one db MATRIX_COL [(''job_title'', JStr (normalize_title title))] = Some entry"
    using that by (rule get_competencies_found)
  have c: "list_all (\<lambda>row. item_standard row = JNull \<and> item_standard_definition row = JNull)
               (resp_items r)"
    if "no_standard db title level" and "get_competencies repr (Some db) title level = Inr r"
    for r
    using that by (rule get_competencies_no_standard_nulls)
  have d: "\<exists>r. get_competencies repr (Some db) title level = Inr r
             \<and> list_all (\<lambda>row. item_standard row = JNull \<and> item_standard_definition row = JNull)
                 (resp_items r)"
    if "find_one db MATRIX_COL [(''job_title'', JStr (normalize_title title))] = Some entry"
      and "no_standard db title level"
      and "list_all (\<lambda>d. py_hashable (dict_get d ''key'')) (find_all db DEFS_COL)"
      and "py_iter (dict_get_default entry ''competencies'' (JList [])) = Inr refs"
      and "list_all ref_ok refs"
    using get_competencies_no_standard_total [OF that, of repr] c [OF that(2)] by blast
  from a b c d show ?thesis by blast
qed

theorem query_not_found_or_null_standards_witness:
  "get_competencies (\<lambda>v. []) (Some example_db) ''Ops'' None
     = Inl (HTTPException 404 ''Title not found'')
   \<and> get_competencies (\<lambda>v. []) (Some example_db) ''Dev'' (Some ''Senior'')
     \<noteq> Inl (HTTPException 404 ''Title not found'')
   \<and> (\<exists>r. get_competencies (\<lambda>v. []) (Some example_db) ''Dev'' (Some ''Senior'') = Inr r
         \<and> list_all (\<lambda>row. item_standard row = JNull \<and> item_standard_definition row = JNull)
             (resp_items r))"
proof -
  have n: "find_one example_db MATRIX_COL [(''job_title'', JStr (normalize_title ''Ops''))] = None"
    by code_simp
  have f: "find_one example_db MATRIX_COL [(''job_title'', JStr (normalize_title ''Dev''))]
     = Some [(''job_title'', JStr ''Dev''), (''competencies'', JList example_refs)]"
    by code_simp
  have s: "no_standard example_db ''Dev'' (Some ''Senior'')"
    by code_simp
  have h: "list_all (\<lambda>d. py_hashable (dict_get d ''key'')) (find_all example_db DEFS_COL)"
    by code_simp
  have i: "py_iter (dict_get_default
                      [(''job_title'', JStr ''Dev''), (''competencies'', JList example_refs)]
                      ''competencies'' (JList []))
     = Inr example_refs"
    by (simp add: dict_get_default_def)
  have k: "list_all ref_ok example_refs"
    by code_simp
  from query_not_found_or_null_standards
      [where repr = "\<lambda>v. []" and db = example_db and title = "''Ops''" and level = None] n
  have one: "get_competencies (\<lambda>v. []) (Some example_db) ''Ops'' None
     = Inl (HTTPException 404 ''Title not found'')"
    by blast
  from query_not_found_or_null_standards
      [where repr = "\<lambda>v. []" and db = example_db and title = "''Dev''"
         and level = "Some ''Senior''" and refs = example_refs
         and entry = "[(''job_title'', JStr ''Dev''), (''competencies'', JList example_refs)]"]
    f s h i k
  have two: "get_competencies (\<lambda>v. []) (Some example_db) ''Dev'' (Some ''Senior'')
     \<noteq> Inl (HTTPException 404 ''Title not found'')
   \<and> (\<exists>r. get_competencies (\<lambda>v. []) (Some example_db) ''Dev'' (Some ''Senior'') = Inr r
         \<and> list_all (\<lambda>row. item_standard row = JNull \<and> item_standard_definition row = JNull)
             (resp_items r))"
    by blast
  from one two show ?thesis by blast
qed

theorem query_null_standards_counterexample:
  "fst (ingest (\<lambda>v. []) (Some empty_db)
          \<lparr>matrix = JDict [(''Dev'', JList [JInt 5])], standards = JDict [],
           definitions = JDict [], replace = True\<rparr>)
     = Inr (JDict [(''status'', JStr ''ok'')])
   \<and> get_competencies (\<lambda>v. [])
       (snd (ingest (\<lambda>v. []) (Some empty_db)
          \<lparr>matrix = JDict [(''Dev'', JList [JInt 5])], standards = JDict [],
           definitions = JDict [], replace = True\<rparr>))
       ''Dev'' None
     = Inl AttributeError"
  by code_simp







end
